theory Spec2Isabelle
  imports Complex_Main "HOL-Library.Monad_Syntax"
begin

section \<open>GLSL values\<close>

text \<open>
  The shader computes on GLSL \<open>float\<close> and \<open>vec3\<close>. A \<open>float\<close> is modelled as a real number
  (no rounding, no overflow). GLSL leaves the result of a division by zero and of
  \<open>normalize\<close> on a zero-length vector undefined; the model makes that result \<open>None\<close>,
  and \<open>None\<close> propagates through every later use of the value, as a NaN does.
\<close>

datatype vec3 = Vec3 (vx: real) (vy: real) (vz: real)

definition vadd :: "vec3 \<Rightarrow> vec3 \<Rightarrow> vec3" where
  "vadd a b = Vec3 (vx a + vx b) (vy a + vy b) (vz a + vz b)"

definition vsub :: "vec3 \<Rightarrow> vec3 \<Rightarrow> vec3" where
  "vsub a b = Vec3 (vx a - vx b) (vy a - vy b) (vz a - vz b)"

definition vscale :: "vec3 \<Rightarrow> real \<Rightarrow> vec3" where
  "vscale a k = Vec3 (vx a * k) (vy a * k) (vz a * k)"

definition vlength :: "vec3 \<Rightarrow> real" where
  "vlength a = sqrt (vx a * vx a + vy a * vy a + vz a * vz a)"

definition fdiv :: "real \<Rightarrow> real \<Rightarrow> real option" where
  "fdiv a b = (if b = 0 then None else Some (a / b))"

definition normalize_vec :: "vec3 \<Rightarrow> vec3 option" where
  "normalize_vec a =
     (if vlength a = 0 then None
      else Some (Vec3 (vx a / vlength a) (vy a / vlength a) (vz a / vlength a)))"

section \<open>The velocity shader (shaders/boidVelocityFrag.glsl)\<close>

text \<open>
  The uniforms of the shader, and \<open>bounds\<close>, which the host writes into the shader as a
  preprocessor define. \<open>del_change\<close> is the frame's elapsed time.
\<close>

record uniforms =
  del_change :: real
  separation_distance :: real
  alignment_distance :: real
  cohesion_distance :: real
  freedom_distance :: real
  predator :: vec3
  bounds :: real

text \<open>
  A compute texture: \<open>resolution_x\<close> by \<open>resolution_y\<close> texels, each holding the position and
  the velocity of one bird. The shader addresses the texel \<open>(x, y)\<close> through the
  coordinate \<open>((x + 0.6) / width, (y + 0.6) / height)\<close>, which lies inside that texel.
\<close>

record textures =
  resolution_x :: nat
  resolution_y :: nat
  PositionTexture :: "nat \<Rightarrow> nat \<Rightarrow> vec3"
  VelocityTexture :: "nat \<Rightarrow> nat \<Rightarrow> vec3"

definition PI :: real where
  "PI = 314159 / 100000"

definition PI_2 :: real where
  "PI_2 = PI * 2"

definition SPEED_LIMIT :: real where
  "SPEED_LIMIT = 10"

definition zoneRadius :: "uniforms \<Rightarrow> real" where
  "zoneRadius U = separation_distance U + alignment_distance U + cohesion_distance U"

definition separationThresh :: "uniforms \<Rightarrow> real option" where
  "separationThresh U = fdiv (separation_distance U) (zoneRadius U)"

definition alignmentThresh :: "uniforms \<Rightarrow> real option" where
  "alignmentThresh U = fdiv (separation_distance U + alignment_distance U) (zoneRadius U)"

definition zoneRadiusSquared :: "uniforms \<Rightarrow> real" where
  "zoneRadiusSquared U = zoneRadius U * zoneRadius U"

text \<open>Lines 50 to 51: the direction to the predator, with its z component set to 0.\<close>

definition predator_dir :: "uniforms \<Rightarrow> vec3 \<Rightarrow> vec3" where
  "predator_dir U selfPosition =
     (let dir = vsub (vscale (predator U) (bounds U)) selfPosition
      in Vec3 (vx dir) (vy dir) 0)"

text \<open>Lines 50 to 62: the predator branch, on the pair of the velocity and the limit.\<close>

definition predator_step :: "uniforms \<Rightarrow> vec3 \<Rightarrow> vec3 \<times> real \<Rightarrow> (vec3 \<times> real) option" where
  "predator_step U selfPosition vl =
     (let velocity = fst vl; limit = snd vl;
          dir = predator_dir U selfPosition;
          dist = vlength dir;
          distSquared = dist * dist;
          preyRadius = 50;
          preyRadiusSq = preyRadius * preyRadius
      in if dist < preyRadius then
           do {
             n \<leftarrow> normalize_vec dir;
             Some (vadd velocity (vscale n ((distSquared / preyRadiusSq) * del_change U * 160)),
                   limit + 5)
           }
         else Some (velocity, limit))"

text \<open>Lines 64 to 69: the pull to the centre.\<close>

definition center_step :: "uniforms \<Rightarrow> vec3 \<Rightarrow> vec3 \<Rightarrow> vec3 option" where
  "center_step U selfPosition velocity =
     (let central = Vec3 0 0 0;
          dir = vsub selfPosition central;
          dir = Vec3 (vx dir) (vy dir * (5 / 2)) (vz dir)
      in do {
           n \<leftarrow> normalize_vec dir;
           Some (vsub velocity (vscale (vscale n (del_change U)) 6))
         })"

text \<open>
  Lines 88, 91 to 94 and 97 to 99: the weight \<open>f\<close> of each zone, from the thresholds, the
  normalized squared distance \<open>percent\<close> and the elapsed time.
\<close>

definition separation_f :: "real \<Rightarrow> real \<Rightarrow> real \<Rightarrow> real option" where
  "separation_f sepT percent dt =
     do { q \<leftarrow> fdiv sepT percent; Some ((q - 1) * dt) }"

definition alignment_f :: "real \<Rightarrow> real \<Rightarrow> real \<Rightarrow> real \<Rightarrow> real option" where
  "alignment_f sepT alT percent dt =
     (let threshold = alT - sepT
      in do {
           adjustedPercent \<leftarrow> fdiv (percent - sepT) threshold;
           Some ((1 / 2 - cos (adjustedPercent * PI_2) * (1 / 2) + 1 / 2) * dt)
         })"

definition cohesion_f :: "real \<Rightarrow> real \<Rightarrow> real \<Rightarrow> real option" where
  "cohesion_f alT percent dt =
     (let threshold = 1 - alT
      in do {
           adjustedPercent \<leftarrow> fdiv (percent - alT) threshold;
           Some ((1 / 2 - (cos (adjustedPercent * PI_2) * (- (1 / 2)) + 1 / 2)) * dt)
         })"

text \<open>
  Lines 76 to 101: the body of the nested loop for the texel \<open>ref\<close>. A \<open>continue\<close>
  leaves the velocity as it is. The thresholds are read where the source reads them.
\<close>

definition neighbor_step ::
  "uniforms \<Rightarrow> textures \<Rightarrow> vec3 \<Rightarrow> nat \<times> nat \<Rightarrow> vec3 \<Rightarrow> vec3 option" where
  "neighbor_step U T selfPosition ref velocity =
     (let birdPosition = PositionTexture T (fst ref) (snd ref);
          dir = vsub birdPosition selfPosition;
          dist = vlength dir
      in if dist < 1 / 10000 then Some velocity
         else
           let distSquared = dist * dist
           in if distSquared > zoneRadiusSquared U then Some velocity
              else do {
                percent \<leftarrow> fdiv distSquared (zoneRadiusSquared U);
                sepT \<leftarrow> separationThresh U;
                if percent < sepT then
                  do {
                    f \<leftarrow> separation_f sepT percent (del_change U);
                    n \<leftarrow> normalize_vec dir;
                    Some (vsub velocity (vscale n f))
                  }
                else do {
                  alT \<leftarrow> alignmentThresh U;
                  if percent < alT then
                    do {
                      f \<leftarrow> alignment_f sepT alT percent (del_change U);
                      n \<leftarrow> normalize_vec (VelocityTexture T (fst ref) (snd ref));
                      Some (vadd velocity (vscale n f))
                    }
                  else
                    do {
                      f \<leftarrow> cohesion_f alT percent (del_change U);
                      n \<leftarrow> normalize_vec dir;
                      Some (vadd velocity (vscale n f))
                    }
                }
              })"

text \<open>Lines 74 to 75: the order in which the nested loop visits the texels.\<close>

definition scan_order :: "textures \<Rightarrow> (nat \<times> nat) list" where
  "scan_order T =
     concat (map (\<lambda>y. map (\<lambda>x. (x, y)) [0 ..< resolution_x T]) [0 ..< resolution_y T])"

fun neighbor_loop ::
  "uniforms \<Rightarrow> textures \<Rightarrow> vec3 \<Rightarrow> (nat \<times> nat) list \<Rightarrow> vec3 \<Rightarrow> vec3 option" where
  "neighbor_loop U T selfPosition [] velocity = Some velocity"
| "neighbor_loop U T selfPosition (ref # refs) velocity =
     (case neighbor_step U T selfPosition ref velocity of
        None \<Rightarrow> None
      | Some velocity' \<Rightarrow> neighbor_loop U T selfPosition refs velocity')"

text \<open>Lines 104 to 106: the clamp of the speed.\<close>

definition clamp_step :: "vec3 \<Rightarrow> real \<Rightarrow> vec3 option" where
  "clamp_step velocity limit =
     (if vlength velocity > limit then
        do { n \<leftarrow> normalize_vec velocity; Some (vscale n limit) }
      else Some velocity)"

text \<open>
  Lines 46 to 103: the velocity and the limit before the clamp, for the fragment whose
  texel is \<open>frag\<close>.
\<close>

definition pre_clamp :: "uniforms \<Rightarrow> textures \<Rightarrow> nat \<times> nat \<Rightarrow> (vec3 \<times> real) option" where
  "pre_clamp U T frag =
     (let selfPosition = PositionTexture T (fst frag) (snd frag);
          selfVelocity = VelocityTexture T (fst frag) (snd frag)
      in do {
           vl \<leftarrow> predator_step U selfPosition (selfVelocity, SPEED_LIMIT);
           velocity \<leftarrow> center_step U selfPosition (fst vl);
           velocity \<leftarrow> neighbor_loop U T selfPosition (scan_order T) velocity;
           Some (velocity, snd vl)
         })"

text \<open>The whole of \<open>main\<close>: the velocity written to \<open>gl_FragColor\<close>.\<close>

definition boidVelocity_main :: "uniforms \<Rightarrow> textures \<Rightarrow> nat \<times> nat \<Rightarrow> vec3 option" where
  "boidVelocity_main U T frag =
     do { vl \<leftarrow> pre_clamp U T frag; clamp_step (fst vl) (snd vl) }"

section \<open>The host program (js-funcs/starlings.js)\<close>

subsection \<open>Options and the count of birds\<close>

text \<open>
  The value of an option as JavaScript has it: \<open>null\<close>, a finite number, or anything else
  (a string, an object, \<open>undefined\<close>, \<open>NaN\<close>, an infinity).
\<close>

datatype js_value = JSNull | JSNumber real | JSOther

record options =
  resolution :: real
  birds :: js_value
  separation :: real
  alignment :: real
  cohesion :: real
  freedom :: real
  opt_bounds :: real

text \<open>The options a caller passes: each one present or absent.\<close>

record user_options =
  user_resolution :: "real option"
  user_birds :: "js_value option"
  user_separation :: "real option"
  user_alignment :: "real option"
  user_cohesion :: "real option"
  user_freedom :: "real option"
  user_bounds :: "real option"

definition default_value :: "'a \<Rightarrow> 'a option \<Rightarrow> 'a" where
  "default_value d v = (case v of None \<Rightarrow> d | Some x \<Rightarrow> x)"

text \<open>Lines 44 to 58: \<open>Object.assign\<close> of the caller's options over the defaults.\<close>

definition constructor_options :: "user_options \<Rightarrow> options" where
  "constructor_options u =
     \<lparr> resolution = default_value 32 (user_resolution u),
       birds = default_value JSNull (user_birds u),
       separation = default_value 20 (user_separation u),
       alignment = default_value 30 (user_alignment u),
       cohesion = default_value 20 (user_cohesion u),
       freedom = default_value (3 / 10) (user_freedom u),
       opt_bounds = default_value 500 (user_bounds u) \<rparr>"

definition Number_isInteger :: "js_value \<Rightarrow> bool" where
  "Number_isInteger v = (case v of JSNumber r \<Rightarrow> of_int \<lfloor>r\<rfloor> = r | _ \<Rightarrow> False)"

text \<open>\<open>birds > 0\<close>: \<open>null\<close> converts to 0, what is not a number compares false.\<close>

definition js_positive :: "js_value \<Rightarrow> bool" where
  "js_positive v = (case v of JSNumber r \<Rightarrow> r > 0 | _ \<Rightarrow> False)"

text \<open>
  Lines 88 to 98 of \<open>runSimulation\<close>: the count of birds, and the options with the
  resolution it stores.
\<close>

definition runSimulation :: "options \<Rightarrow> real \<times> options" where
  "runSimulation opts =
     (case birds opts of
        JSNumber b \<Rightarrow>
          if Number_isInteger (birds opts) \<and> js_positive (birds opts) then
            (b, opts\<lparr>resolution := of_int \<lceil>sqrt b\<rceil>\<rparr>)
          else (resolution opts * resolution opts, opts)
      | _ \<Rightarrow> (resolution opts * resolution opts, opts))"

subsection \<open>The pointer and the predator uniform\<close>

record starlings =
  mouseX :: real
  mouseY :: real
  halfX :: real
  halfY :: real
  lastTime :: real
  uniformVelocity :: uniforms

text \<open>Lines 314 to 317: a pointer event at \<open>(clientX, clientY)\<close>.\<close>

definition onDocumentMouseMove :: "real \<times> real \<Rightarrow> starlings \<Rightarrow> starlings" where
  "onDocumentMouseMove event s =
     s\<lparr>mouseX := fst event - halfX s, mouseY := snd event - halfY s\<rparr>"

text \<open>
  Lines 272 to 297 of \<open>render\<close>, at the time \<open>now\<close>: the elapsed time and the predator
  written to the uniforms of the velocity shader, and the reset of the pointer.
\<close>

definition render :: "real \<Rightarrow> starlings \<Rightarrow> starlings" where
  "render now s =
     (let delta = (now - lastTime s) / 1000;
          delta = (if delta > 1 then 1 else delta);
          s = s\<lparr>lastTime := now\<rparr>;
          s = s\<lparr>uniformVelocity := (uniformVelocity s)\<lparr>del_change := delta\<rparr>\<rparr>
      in if \<bar>mouseX s\<bar> < halfX s * 10 \<and> \<bar>mouseY s\<bar> < halfY s * 10 then
           s\<lparr>uniformVelocity := (uniformVelocity s)
                \<lparr>predator := Vec3 (1 / 2 * mouseX s / halfX s) (- (1 / 2) * mouseY s / halfY s) 0\<rparr>,
              mouseX := 10000, mouseY := 10000\<rparr>
         else s)"

subsection \<open>The initial textures\<close>






section \<open>Concrete inputs\<close>

text \<open>
  The default zone distances and bounds, an elapsed time of 0.016, and a predator at
  \<open>(500, 500, 0)\<close>, further than 50 from every bird used below.
\<close>

definition far_uniforms :: uniforms where
  "far_uniforms =
     \<lparr> del_change = 2 / 125, separation_distance = 20, alignment_distance = 30,
       cohesion_distance = 20, freedom_distance = 3 / 10, predator = Vec3 1 1 0,
       bounds = 500 \<rparr>"

text \<open>The same with the predator at the origin, where the uniform starts.\<close>

definition near_uniforms :: uniforms where
  "near_uniforms = far_uniforms\<lparr>predator := Vec3 0 0 0\<rparr>"

text \<open>All three zone distances zero.\<close>

definition zero_uniforms :: uniforms where
  "zero_uniforms =
     far_uniforms\<lparr>separation_distance := 0, alignment_distance := 0, cohesion_distance := 0\<rparr>"

text \<open>A cohesion distance of 30: the zone radius is 80, the separation threshold 1/4.\<close>

definition wide_uniforms :: uniforms where
  "wide_uniforms = far_uniforms\<lparr>cohesion_distance := 30\<rparr>"

text \<open>Two birds at rest: A at the origin in texel \<open>(0, 0)\<close>, B at \<open>(10, 0, 0)\<close> in texel \<open>(1, 0)\<close>.\<close>

definition two_birds :: textures where
  "two_birds =
     \<lparr> resolution_x = 2, resolution_y = 1,
       PositionTexture = (\<lambda>x y. if x = 0 then Vec3 0 0 0 else Vec3 10 0 0),
       VelocityTexture = (\<lambda>x y. Vec3 0 0 0) \<rparr>"

text \<open>One bird at \<open>(0, 0, 5)\<close>, moving fast along z.\<close>

definition fast_bird :: textures where
  "fast_bird =
     \<lparr> resolution_x = 1, resolution_y = 1,
       PositionTexture = (\<lambda>x y. Vec3 0 0 5),
       VelocityTexture = (\<lambda>x y. Vec3 0 0 (2512 / 125)) \<rparr>"

text \<open>One bird at the origin.\<close>

definition origin_bird :: textures where
  "origin_bird =
     \<lparr> resolution_x = 1, resolution_y = 1,
       PositionTexture = (\<lambda>x y. Vec3 0 0 0),
       VelocityTexture = (\<lambda>x y. Vec3 1 0 0) \<rparr>"

text \<open>
  Five birds on a line: the first at \<open>(5, 0, 0)\<close>, the others 10, 40, 60 and 100 further
  along x, each moving along y.
\<close>

definition zone_birds :: textures where
  "zone_birds =
     \<lparr> resolution_x = 5, resolution_y = 1,
       PositionTexture = (\<lambda>x y. if x = 0 then Vec3 5 0 0 else if x = 1 then Vec3 15 0 0
                                 else if x = 2 then Vec3 45 0 0 else if x = 3 then Vec3 65 0 0
                                 else Vec3 105 0 0),
       VelocityTexture = (\<lambda>x y. Vec3 0 2 0) \<rparr>"

text \<open>A caller that passes no option.\<close>

definition no_options :: user_options where
  "no_options =
     \<lparr> user_resolution = None, user_birds = None, user_separation = None,
       user_alignment = None, user_cohesion = None, user_freedom = None,
       user_bounds = None \<rparr>"

text \<open>
  A window of 800 by 600 as \<open>runSimulation\<close> and \<open>initComputeRenderer\<close> leave it, then a
  pointer event at \<open>(480, 300)\<close>, a frame at 16 ms, and a frame at 32 ms with no pointer
  event between the two.
\<close>

definition start_state :: starlings where
  "start_state =
     \<lparr> mouseX = 0, mouseY = 0, halfX = 400, halfY = 300, lastTime = 0,
       uniformVelocity = near_uniforms\<lparr>del_change := 0\<rparr> \<rparr>"

definition frame_one :: starlings where
  "frame_one = render 16 (onDocumentMouseMove (480, 300) start_state)"

definition frame_two :: starlings where
  "frame_two = render 32 frame_one"


section \<open>Vectors\<close>

lemma vlength_nonneg: "0 \<le> vlength a"
  by (simp add: vlength_def)

lemma vlength_zero_iff: "vlength a = 0 \<longleftrightarrow> a = Vec3 0 0 0"
proof (cases a)
  case (Vec3 x y z)
  have "x * x + y * y + z * z = 0 \<longleftrightarrow> x = 0 \<and> y = 0 \<and> z = 0"
    by (smt (verit) mult_eq_0_iff zero_le_square sum_squares_eq_zero_iff add_nonneg_eq_0_iff)
  then show ?thesis
    using Vec3 by (simp add: vlength_def)
qed

lemma vlength_less_iff:
  assumes "0 < c"
  shows "vlength a < c \<longleftrightarrow> vx a * vx a + vy a * vy a + vz a * vz a < c * c"
proof -
  have "vlength a < c \<longleftrightarrow> vlength a < sqrt (c * c)"
    using assms by simp
  also have "\<dots> \<longleftrightarrow> vx a * vx a + vy a * vy a + vz a * vz a < c * c"
    unfolding vlength_def by (rule real_sqrt_less_iff)
  finally show ?thesis .
qed

lemma vlength_axis_x: "vlength (Vec3 a 0 0) = \<bar>a\<bar>"
  by (simp add: vlength_def)

lemma vlength_axis_z: "vlength (Vec3 0 0 a) = \<bar>a\<bar>"
  by (simp add: vlength_def)

lemma vlength_vscale: "vlength (vscale a k) = \<bar>k\<bar> * vlength a"
proof -
  have "vx a * k * (vx a * k) + vy a * k * (vy a * k) + vz a * k * (vz a * k)
        = (k * k) * (vx a * vx a + vy a * vy a + vz a * vz a)"
    by (simp add: algebra_simps)
  then show ?thesis
    by (simp add: vlength_def vscale_def real_sqrt_mult)
qed

lemma normalize_vscale:
  "normalize_vec a = Some n \<longleftrightarrow> vlength a \<noteq> 0 \<and> n = vscale a (1 / vlength a)"
  by (auto simp: normalize_vec_def vscale_def)

lemma normalize_unit: "normalize_vec a = Some n \<Longrightarrow> vlength n = 1"
  using vlength_nonneg [of a] by (auto simp: normalize_vscale vlength_vscale)

lemma normalize_None_iff: "normalize_vec a = None \<longleftrightarrow> a = Vec3 0 0 0"
  by (simp add: normalize_vec_def vlength_zero_iff)

lemma normalize_axis_x: "a \<noteq> 0 \<Longrightarrow> normalize_vec (Vec3 a 0 0) = Some (Vec3 (sgn a) 0 0)"
  by (simp add: normalize_vec_def vlength_axis_x sgn_real_def)

lemma normalize_axis_z: "a \<noteq> 0 \<Longrightarrow> normalize_vec (Vec3 0 0 a) = Some (Vec3 0 0 (sgn a))"
  by (simp add: normalize_vec_def vlength_axis_z sgn_real_def)

section \<open>The steps of the shader\<close>

lemma center_step_normalize:
  "center_step U selfPosition velocity =
     map_option (\<lambda>n. vsub velocity (vscale (vscale n (del_change U)) 6))
       (normalize_vec (Vec3 (vx selfPosition) (vy selfPosition * (5 / 2)) (vz selfPosition)))"
  by (cases "normalize_vec (Vec3 (vx selfPosition) (vy selfPosition * (5 / 2)) (vz selfPosition))")
     (simp_all add: center_step_def vsub_def)

lemma center_step_origin: "center_step U (Vec3 0 0 0) velocity = None"
  by (simp add: center_step_normalize normalize_None_iff)

lemma predator_step_cases:
  "predator_step U selfPosition (velocity, limit) =
     (if vlength (predator_dir U selfPosition) < 50 then
        map_option
          (\<lambda>n. (vadd velocity (vscale n
                   (vlength (predator_dir U selfPosition) * vlength (predator_dir U selfPosition)
                      / (50 * 50) * del_change U * 160)),
                 limit + 5))
          (normalize_vec (predator_dir U selfPosition))
      else Some (velocity, limit))"
  by (cases "normalize_vec (predator_dir U selfPosition)") (simp_all add: predator_step_def Let_def)

lemma predator_step_limit:
  assumes "predator_step U selfPosition (velocity, limit) = Some (velocity', limit')"
  shows "limit' = (if vlength (predator_dir U selfPosition) < 50 then limit + 5 else limit)"
  using assms by (auto simp: predator_step_cases split: if_splits)

lemma pre_clamp_limit:
  assumes "pre_clamp U T frag = Some (u, limit)"
  shows "limit =
     (if vlength (predator_dir U (PositionTexture T (fst frag) (snd frag))) < 50 then 15 else 10)"
proof -
  from assms obtain vl where
    "predator_step U (PositionTexture T (fst frag) (snd frag))
       (VelocityTexture T (fst frag) (snd frag), SPEED_LIMIT) = Some vl"
    and "limit = snd vl"
    by (auto simp: pre_clamp_def Let_def Option.bind_eq_Some_conv)
  then show ?thesis
    using predator_step_limit [of U _ _ SPEED_LIMIT "fst vl" "snd vl"]
    by (simp add: SPEED_LIMIT_def)
qed

lemma pre_clamp_origin:
  assumes "PositionTexture T (fst frag) (snd frag) = Vec3 0 0 0"
  shows "pre_clamp U T frag = None"
proof (cases "predator_step U (Vec3 0 0 0) (VelocityTexture T (fst frag) (snd frag), SPEED_LIMIT)")
  case None
  then show ?thesis by (simp add: pre_clamp_def assms)
next
  case (Some vl)
  then show ?thesis by (simp add: pre_clamp_def assms center_step_origin)
qed

lemma clamp_step_bound:
  assumes "0 < limit"
  shows "\<exists>v. clamp_step u limit = Some v \<and> vlength v \<le> limit
           \<and> (limit < vlength u \<longrightarrow> vlength v = limit) \<and> (vlength u \<le> limit \<longrightarrow> v = u)"
proof (cases "limit < vlength u")
  case True
  then have "vlength u \<noteq> 0" using assms by simp
  then obtain n where n: "normalize_vec u = Some n"
    by (auto simp: normalize_vec_def)
  then have "vlength (vscale n limit) = limit"
    using assms by (simp add: vlength_vscale normalize_unit)
  then show ?thesis
    using True n by (simp add: clamp_step_def)
next
  case False
  then show ?thesis by (simp add: clamp_step_def)
qed

section \<open>The centre pull\<close>

text \<open>
  C10: the centre pull normalizes the bird's position (y scaled by 2.5) with no guard for
  a zero length. For a bird at the origin the normalized vector is undefined, and so are
  the step's velocity and the velocity the shader writes. For every other bird the
  normalized vector \<open>n\<close> is defined and of length 1, and the step subtracts \<open>n\<close> times the
  elapsed time times 6.
\<close>

theorem center_pull_unguarded:
  "center_step U (Vec3 0 0 0) velocity = None
   \<and> (PositionTexture T (fst frag) (snd frag) = Vec3 0 0 0 \<longrightarrow> boidVelocity_main U T frag = None)
   \<and> (selfPosition \<noteq> Vec3 0 0 0 \<longrightarrow>
        (\<exists>n. normalize_vec (Vec3 (vx selfPosition) (vy selfPosition * (5 / 2)) (vz selfPosition)) = Some n
           \<and> vlength n = 1
           \<and> center_step U selfPosition velocity
               = Some (vsub velocity (vscale (vscale n (del_change U)) 6))))"
proof (intro conjI impI)
  show "center_step U (Vec3 0 0 0) velocity = None"
    by (rule center_step_origin)
next
  assume "PositionTexture T (fst frag) (snd frag) = Vec3 0 0 0"
  then show "boidVelocity_main U T frag = None"
    by (simp add: boidVelocity_main_def pre_clamp_origin)
next
  assume nz: "selfPosition \<noteq> Vec3 0 0 0"
  let ?dir = "Vec3 (vx selfPosition) (vy selfPosition * (5 / 2)) (vz selfPosition)"
  have "?dir \<noteq> Vec3 0 0 0"
    using nz by (cases selfPosition) simp
  then obtain n where n: "normalize_vec ?dir = Some n"
    by (auto simp: normalize_None_iff [symmetric])
  then show "\<exists>n. normalize_vec ?dir = Some n \<and> vlength n = 1
      \<and> center_step U selfPosition velocity
          = Some (vsub velocity (vscale (vscale n (del_change U)) 6))"
    by (simp add: center_step_normalize normalize_unit)
qed

theorem center_pull_unguarded_witness:
  "PositionTexture two_birds (fst (0, 0)) (snd (0, 0)) = Vec3 0 0 0
   \<and> boidVelocity_main near_uniforms two_birds (0, 0) = None
   \<and> Vec3 0 0 5 \<noteq> Vec3 0 0 0
   \<and> center_step far_uniforms (Vec3 0 0 5) (Vec3 0 0 0) = Some (Vec3 0 0 (- (12 / 125)))"
  using center_pull_unguarded [of far_uniforms "Vec3 0 0 0" two_birds "(0, 0)" "Vec3 0 0 5"]
    center_pull_unguarded [of near_uniforms "Vec3 0 0 0" two_birds "(0, 0)" "Vec3 0 0 5"]
  by (simp add: two_birds_def far_uniforms_def normalize_axis_z vscale_def vsub_def)

section \<open>The shader on the concrete inputs\<close>

lemma scan_order_fast_bird: "scan_order fast_bird = [(0, 0)]"
  by (simp add: scan_order_def fast_bird_def)

lemma scan_order_two_birds: "scan_order two_birds = [(0, 0), (1, 0)]"
proof -
  have "[0 ..< 2] = [0, Suc 0]"
    by (simp add: numeral_2_eq_2)
  then show ?thesis
    by (simp add: scan_order_def two_birds_def)
qed

lemma predator_far_fast_bird: "\<not> vlength (predator_dir far_uniforms (Vec3 0 0 5)) < 50"
  by (simp add: vlength_less_iff predator_dir_def far_uniforms_def vsub_def vscale_def)

lemma predator_far_B: "\<not> vlength (predator_dir far_uniforms (Vec3 10 0 0)) < 50"
  by (simp add: vlength_less_iff predator_dir_def far_uniforms_def vsub_def vscale_def)

lemma neighbor_step_self:
  assumes "PositionTexture T (fst ref) (snd ref) = selfPosition"
  shows "neighbor_step U T selfPosition ref velocity = Some velocity"
  using assms by (simp add: neighbor_step_def vsub_def vlength_def)

lemma pre_clamp_fast_bird: "pre_clamp far_uniforms fast_bird (0, 0) = Some (Vec3 0 0 20, 10)"
proof -
  have p: "predator_step far_uniforms (Vec3 0 0 5) (Vec3 0 0 (2512 / 125), SPEED_LIMIT)
             = Some (Vec3 0 0 (2512 / 125), 10)"
    using predator_far_fast_bird by (simp add: predator_step_cases SPEED_LIMIT_def)
  have c: "center_step far_uniforms (Vec3 0 0 5) (Vec3 0 0 (2512 / 125)) = Some (Vec3 0 0 20)"
    by (simp add: center_step_normalize normalize_axis_z vscale_def vsub_def far_uniforms_def)
  have n: "neighbor_loop far_uniforms fast_bird (Vec3 0 0 5) [(0, 0)] (Vec3 0 0 20)
             = Some (Vec3 0 0 20)"
    by (simp add: neighbor_step_self fast_bird_def)
  show ?thesis
    using p c n by (simp add: pre_clamp_def scan_order_fast_bird) (simp add: fast_bird_def)
qed

lemma main_fast_bird: "boidVelocity_main far_uniforms fast_bird (0, 0) = Some (Vec3 0 0 10)"
  by (simp add: boidVelocity_main_def pre_clamp_fast_bird clamp_step_def vlength_axis_z
      normalize_axis_z vscale_def)

lemma main_defined_iff:
  "(\<exists>v. boidVelocity_main U T frag = Some v) \<longleftrightarrow> (\<exists>ul. pre_clamp U T frag = Some ul)"
proof
  assume "\<exists>v. boidVelocity_main U T frag = Some v"
  then show "\<exists>ul. pre_clamp U T frag = Some ul"
    by (auto simp: boidVelocity_main_def Option.bind_eq_Some_conv)
next
  assume "\<exists>ul. pre_clamp U T frag = Some ul"
  then obtain u limit where p: "pre_clamp U T frag = Some (u, limit)"
    by auto
  then have "0 < limit"
    using pre_clamp_limit [OF p] by (simp split: if_splits)
  then obtain v where "clamp_step u limit = Some v"
    using clamp_step_bound [of limit u] by blast
  then show "\<exists>v. boidVelocity_main U T frag = Some v"
    using p by (simp add: boidVelocity_main_def)
qed

lemma main_origin_bird: "boidVelocity_main far_uniforms origin_bird (0, 0) = None"
  by (simp add: boidVelocity_main_def pre_clamp_origin origin_bird_def)

section \<open>The predator\<close>

lemma predator_dir_components:
  "predator_dir U selfPosition =
     Vec3 (vx (predator U) * bounds U - vx selfPosition)
          (vy (predator U) * bounds U - vy selfPosition) 0"
  by (simp add: predator_dir_def vsub_def vscale_def)



lemma predator_dir_near_B: "predator_dir near_uniforms (Vec3 10 0 0) = Vec3 (- 10) 0 0"
  by (simp add: predator_dir_components near_uniforms_def far_uniforms_def)


section \<open>The scenario of two birds\<close>

lemma zoneRadius_far: "zoneRadius far_uniforms = 70"
  by (simp add: zoneRadius_def far_uniforms_def)

lemma separationThresh_far: "separationThresh far_uniforms = Some (2 / 7)"
  by (simp add: separationThresh_def fdiv_def zoneRadius_far) (simp add: far_uniforms_def)

lemma separation_f_scenario: "separation_f (2 / 7) (1 / 49) (2 / 125) = Some (26 / 125)"
  by (simp add: separation_f_def fdiv_def)

lemma neighbor_step_B_from_A:
  "neighbor_step far_uniforms two_birds (Vec3 10 0 0) (0, 0) velocity
     = Some (vsub velocity (vscale (Vec3 (- 1) 0 0) (26 / 125)))"
proof -
  have dir: "vsub (PositionTexture two_birds (fst (0, 0)) (snd (0, 0))) (Vec3 10 0 0) = Vec3 (- 10) 0 0"
    by (simp add: two_birds_def vsub_def)
  have len: "vlength (Vec3 (- 10) 0 0) = 10"
    by (simp add: vlength_axis_x)
  have n: "normalize_vec (Vec3 (- 10) 0 0) = Some (Vec3 (- 1) 0 0)"
    by (simp add: normalize_axis_x)
  have dt: "del_change far_uniforms = 2 / 125"
    by (simp add: far_uniforms_def)
  show ?thesis
    unfolding neighbor_step_def Let_def dir len
    by (simp add: fdiv_def zoneRadiusSquared_def zoneRadius_far separationThresh_far
        separation_f_def dt n)
qed

lemma neighbor_step_A_from_B:
  "neighbor_step far_uniforms two_birds (Vec3 0 0 0) (1, 0) velocity
     = Some (vsub velocity (vscale (Vec3 1 0 0) (26 / 125)))"
proof -
  have dir: "vsub (PositionTexture two_birds (fst (1, 0)) (snd (1, 0))) (Vec3 0 0 0) = Vec3 10 0 0"
    by (simp add: two_birds_def vsub_def)
  have len: "vlength (Vec3 10 0 0) = 10"
    by (simp add: vlength_axis_x)
  have n: "normalize_vec (Vec3 10 0 0) = Some (Vec3 1 0 0)"
    by (simp add: normalize_axis_x)
  have dt: "del_change far_uniforms = 2 / 125"
    by (simp add: far_uniforms_def)
  show ?thesis
    unfolding neighbor_step_def Let_def dir len
    by (simp add: fdiv_def zoneRadiusSquared_def zoneRadius_far separationThresh_far
        separation_f_def dt n)
qed

lemma pre_clamp_B: "pre_clamp far_uniforms two_birds (1, 0) = Some (Vec3 (14 / 125) 0 0, 10)"
proof -
  have pos: "PositionTexture two_birds (fst (1, 0)) (snd (1, 0)) = Vec3 10 0 0"
    and vel: "VelocityTexture two_birds (fst (1, 0)) (snd (1, 0)) = Vec3 0 0 0"
    by (simp_all add: two_birds_def)
  have p: "predator_step far_uniforms (Vec3 10 0 0) (Vec3 0 0 0, SPEED_LIMIT)
             = Some (Vec3 0 0 0, 10)"
    using predator_far_B by (simp add: predator_step_cases SPEED_LIMIT_def)
  have c: "center_step far_uniforms (Vec3 10 0 0) (Vec3 0 0 0) = Some (Vec3 (- (12 / 125)) 0 0)"
    by (simp add: center_step_normalize normalize_axis_x vscale_def vsub_def far_uniforms_def)
  have s: "neighbor_step far_uniforms two_birds (Vec3 10 0 0) (1, 0) (Vec3 (14 / 125) 0 0)
             = Some (Vec3 (14 / 125) 0 0)"
    by (rule neighbor_step_self) (simp add: two_birds_def)
  have n: "neighbor_loop far_uniforms two_birds (Vec3 10 0 0) [(0, 0), (1, 0)] (Vec3 (- (12 / 125)) 0 0)
             = Some (Vec3 (14 / 125) 0 0)"
    by (simp add: neighbor_step_B_from_A vsub_def vscale_def s del: One_nat_def)
  show ?thesis
    unfolding pre_clamp_def Let_def pos vel scan_order_two_birds
    by (simp add: p c n del: One_nat_def neighbor_loop.simps)
qed

lemma main_B: "boidVelocity_main far_uniforms two_birds (1, 0) = Some (Vec3 (14 / 125) 0 0)"
  unfolding boidVelocity_main_def pre_clamp_B
  by (simp add: clamp_step_def vlength_axis_x)

lemma main_A: "boidVelocity_main far_uniforms two_birds (0, 0) = None"
  by (simp add: boidVelocity_main_def pre_clamp_origin two_birds_def)

text \<open>
  C5, as stated, fails: A is at the origin, the centre pull normalizes the zero vector,
  and the velocity the shader writes for A is undefined.
\<close>

theorem two_birds_counterexample:
  "boidVelocity_main far_uniforms two_birds (0, 0) = None"
  by (rule main_A)

text \<open>
  C5, amended: in the scenario (Z = 70, percent = 1/49 below the separation threshold 2/7,
  elapsed time 0.016, the predator further than 50 from both birds) the separation weight
  is \<open>f = (sepThresh / percent - 1) * dt = 0.208\<close>; the scan of B subtracts \<open>(-1, 0, 0) * f\<close>
  for A, the scan of A subtracts \<open>(1, 0, 0) * f\<close> for B; the velocity written for B is
  \<open>(0.112, 0, 0)\<close>, along \<open>(+1, 0, 0)\<close>: the centre pull's \<open>-0.096\<close> plus \<open>f\<close>; the
  velocity written for A is undefined.
\<close>

theorem two_birds_scenario:
  "zoneRadius far_uniforms = 70
   \<and> separationThresh far_uniforms = Some (2 / 7)
   \<and> fdiv (10 * 10) (zoneRadiusSquared far_uniforms) = Some (1 / 49)
   \<and> separation_f (2 / 7) (1 / 49) (del_change far_uniforms) = Some ((2 / 7 / (1 / 49) - 1) * (2 / 125))
   \<and> (2 / 7 / (1 / 49) - 1) * (2 / 125) = (26 / 125 :: real)
   \<and> neighbor_step far_uniforms two_birds (Vec3 10 0 0) (0, 0) velocity
       = Some (vadd velocity (Vec3 (26 / 125) 0 0))
   \<and> neighbor_step far_uniforms two_birds (Vec3 0 0 0) (1, 0) velocity
       = Some (vadd velocity (Vec3 (- (26 / 125)) 0 0))
   \<and> center_step far_uniforms (Vec3 10 0 0) (Vec3 0 0 0) = Some (Vec3 (- (12 / 125)) 0 0)
   \<and> boidVelocity_main far_uniforms two_birds (1, 0) = Some (Vec3 (14 / 125) 0 0)
   \<and> center_step far_uniforms (Vec3 0 0 0) (Vec3 0 0 0) = None
   \<and> boidVelocity_main far_uniforms two_birds (0, 0) = None"
proof (intro conjI)
  show "zoneRadius far_uniforms = 70"
    by (rule zoneRadius_far)
  show "separationThresh far_uniforms = Some (2 / 7)"
    by (rule separationThresh_far)
  show "fdiv (10 * 10) (zoneRadiusSquared far_uniforms) = Some (1 / 49)"
    by (simp add: fdiv_def zoneRadiusSquared_def zoneRadius_far)
  show "separation_f (2 / 7) (1 / 49) (del_change far_uniforms) = Some ((2 / 7 / (1 / 49) - 1) * (2 / 125))"
    by (simp add: separation_f_def fdiv_def far_uniforms_def)
  show "(2 / 7 / (1 / 49) - 1) * (2 / 125) = (26 / 125 :: real)"
    by simp
  show "neighbor_step far_uniforms two_birds (Vec3 10 0 0) (0, 0) velocity
       = Some (vadd velocity (Vec3 (26 / 125) 0 0))"
    by (simp add: neighbor_step_B_from_A vsub_def vadd_def vscale_def)
  show "neighbor_step far_uniforms two_birds (Vec3 0 0 0) (1, 0) velocity
       = Some (vadd velocity (Vec3 (- (26 / 125)) 0 0))"
    by (simp add: neighbor_step_A_from_B vsub_def vadd_def vscale_def del: One_nat_def)
  show "center_step far_uniforms (Vec3 10 0 0) (Vec3 0 0 0) = Some (Vec3 (- (12 / 125)) 0 0)"
    by (simp add: center_step_normalize normalize_axis_x vscale_def vsub_def far_uniforms_def)
  show "boidVelocity_main far_uniforms two_birds (1, 0) = Some (Vec3 (14 / 125) 0 0)"
    by (rule main_B)
  show "center_step far_uniforms (Vec3 0 0 0) (Vec3 0 0 0) = None"
    by (rule center_step_origin)
  show "boidVelocity_main far_uniforms two_birds (0, 0) = None"
    by (rule main_A)
qed

lemma neighbor_step_predator:
  "neighbor_step (U\<lparr>predator := p\<rparr>) T selfPosition ref velocity
     = neighbor_step U T selfPosition ref velocity"
proof -
  have eqs: "zoneRadiusSquared (U\<lparr>predator := p\<rparr>) = zoneRadiusSquared U"
    "separationThresh (U\<lparr>predator := p\<rparr>) = separationThresh U"
    "alignmentThresh (U\<lparr>predator := p\<rparr>) = alignmentThresh U"
    "del_change (U\<lparr>predator := p\<rparr>) = del_change U"
    by (simp_all add: zoneRadiusSquared_def zoneRadius_def separationThresh_def
        alignmentThresh_def)
  show ?thesis
    unfolding neighbor_step_def eqs by (rule refl)
qed

lemma pre_clamp_near_B: "pre_clamp near_uniforms two_birds (1, 0) = Some (Vec3 (6 / 625) 0 0, 15)"
proof -
  have pos: "PositionTexture two_birds (fst (1, 0)) (snd (1, 0)) = Vec3 10 0 0"
    and vel: "VelocityTexture two_birds (fst (1, 0)) (snd (1, 0)) = Vec3 0 0 0"
    by (simp_all add: two_birds_def)
  have dt: "del_change near_uniforms = 2 / 125"
    by (simp add: near_uniforms_def far_uniforms_def)
  have p: "predator_step near_uniforms (Vec3 10 0 0) (Vec3 0 0 0, SPEED_LIMIT)
             = Some (Vec3 (- (64 / 625)) 0 0, 15)"
    by (simp add: predator_step_cases predator_dir_near_B vlength_axis_x normalize_axis_x
        SPEED_LIMIT_def dt vadd_def vscale_def)
  have c: "center_step near_uniforms (Vec3 10 0 0) (Vec3 (- (64 / 625)) 0 0)
             = Some (Vec3 (- (124 / 625)) 0 0)"
    by (simp add: center_step_normalize normalize_axis_x vscale_def vsub_def dt)
  have s: "neighbor_step near_uniforms two_birds (Vec3 10 0 0) (1, 0) (Vec3 (6 / 625) 0 0)
             = Some (Vec3 (6 / 625) 0 0)"
    by (rule neighbor_step_self) (simp add: two_birds_def)
  have a: "neighbor_step near_uniforms two_birds (Vec3 10 0 0) (0, 0) (Vec3 (- (124 / 625)) 0 0)
             = Some (Vec3 (6 / 625) 0 0)"
    unfolding near_uniforms_def neighbor_step_predator
    by (simp add: neighbor_step_B_from_A vsub_def vscale_def)
  have n: "neighbor_loop near_uniforms two_birds (Vec3 10 0 0) [(0, 0), (1, 0)]
             (Vec3 (- (124 / 625)) 0 0) = Some (Vec3 (6 / 625) 0 0)"
    by (simp add: a s del: One_nat_def)
  show ?thesis
    unfolding pre_clamp_def Let_def pos vel scan_order_two_birds
    by (simp add: p c n del: One_nat_def neighbor_loop.simps)
qed

lemma main_near_B: "boidVelocity_main near_uniforms two_birds (1, 0) = Some (Vec3 (6 / 625) 0 0)"
  unfolding boidVelocity_main_def pre_clamp_near_B
  by (simp add: clamp_step_def vlength_axis_x)

section \<open>The neighbor scan\<close>

lemma neighbor_step_skip:
  assumes "vlength (vsub (PositionTexture T (fst ref) (snd ref)) selfPosition) < 1 / 10000
     \<or> zoneRadius U * zoneRadius U
         < vlength (vsub (PositionTexture T (fst ref) (snd ref)) selfPosition)
           * vlength (vsub (PositionTexture T (fst ref) (snd ref)) selfPosition)"
  shows "neighbor_step U T selfPosition ref velocity = Some velocity"
  using assms by (auto simp: neighbor_step_def Let_def zoneRadiusSquared_def)

lemma neighbor_step_zones:
  assumes near: "\<not> vlength (vsub (PositionTexture T (fst ref) (snd ref)) selfPosition) < 1 / 10000"
    and inside: "\<not> zoneRadius U * zoneRadius U
         < vlength (vsub (PositionTexture T (fst ref) (snd ref)) selfPosition)
           * vlength (vsub (PositionTexture T (fst ref) (snd ref)) selfPosition)"
    and pc: "fdiv (vlength (vsub (PositionTexture T (fst ref) (snd ref)) selfPosition)
           * vlength (vsub (PositionTexture T (fst ref) (snd ref)) selfPosition))
          (zoneRadiusSquared U) = Some percent"
    and sepT: "separationThresh U = Some sepT"
    and alT: "alignmentThresh U = Some alT"
  shows "neighbor_step U T selfPosition ref velocity =
     (if percent < sepT then
        do {
          f \<leftarrow> separation_f sepT percent (del_change U);
          n \<leftarrow> normalize_vec (vsub (PositionTexture T (fst ref) (snd ref)) selfPosition);
          Some (vsub velocity (vscale n f))
        }
      else if percent < alT then
        do {
          f \<leftarrow> alignment_f sepT alT percent (del_change U);
          n \<leftarrow> normalize_vec (VelocityTexture T (fst ref) (snd ref));
          Some (vadd velocity (vscale n f))
        }
      else
        do {
          f \<leftarrow> cohesion_f alT percent (del_change U);
          n \<leftarrow> normalize_vec (vsub (PositionTexture T (fst ref) (snd ref)) selfPosition);
          Some (vadd velocity (vscale n f))
        })"
  using near inside by (simp add: neighbor_step_def Let_def zoneRadiusSquared_def [symmetric] pc sepT alT)

lemma neighbor_loop_unchanged:
  assumes "\<And>ref v. neighbor_step U T selfPosition ref v = Some v"
  shows "neighbor_loop U T selfPosition refs velocity = Some velocity"
  by (induction refs) (simp_all add: assms)

lemma square_pos_of_far:
  assumes "\<not> d < 1 / 10000"
  shows "(0::real) < d * d"
proof -
  have "0 < d" using assms by simp
  then show ?thesis by simp
qed

lemma neighbor_step_zero_radius:
  assumes "zoneRadius U = 0"
  shows "neighbor_step U T selfPosition ref velocity = Some velocity"
proof (rule neighbor_step_skip)
  let ?d = "vlength (vsub (PositionTexture T (fst ref) (snd ref)) selfPosition)"
  show "?d < 1 / 10000 \<or> zoneRadius U * zoneRadius U < ?d * ?d"
    using square_pos_of_far [of ?d] assms by auto
qed

section \<open>A zone radius of zero\<close>

text \<open>
  C4, as stated, fails: with all three zone distances zero the zone radius is 0, and the
  two thresholds the shader derives first are divisions by that zero: both are
  undefined.
\<close>

theorem zero_radius_counterexample:
  "zoneRadius zero_uniforms = 0
   \<and> separationThresh zero_uniforms = None
   \<and> alignmentThresh zero_uniforms = None"
  by (simp add: zoneRadius_def separationThresh_def alignmentThresh_def fdiv_def
      zero_uniforms_def)

text \<open>
  C4, amended: when the zone radius is 0 the shader divides by zero where it derives the
  two thresholds, and both are undefined; it never reads them and never computes
  \<open>percent\<close>, because the scan skips every texel (its distance is below 0.0001, or its
  square exceeds the squared zone radius 0). The scan leaves the velocity as it is, and the
  velocity before the clamp is the one the predator step and the centre pull give,
  defined whenever those two are.
\<close>

theorem zero_radius_no_neighbors:
  assumes "zoneRadius U = 0"
  shows "separationThresh U = None
     \<and> alignmentThresh U = None
     \<and> neighbor_step U T selfPosition ref velocity = Some velocity
     \<and> neighbor_loop U T selfPosition refs velocity = Some velocity
     \<and> pre_clamp U T frag =
         do {
           vl \<leftarrow> predator_step U (PositionTexture T (fst frag) (snd frag))
                  (VelocityTexture T (fst frag) (snd frag), SPEED_LIMIT);
           velocity \<leftarrow> center_step U (PositionTexture T (fst frag) (snd frag)) (fst vl);
           Some (velocity, snd vl)
         }"
proof (intro conjI)
  show "separationThresh U = None" and "alignmentThresh U = None"
    using assms by (simp_all add: separationThresh_def alignmentThresh_def fdiv_def)
  show "neighbor_step U T selfPosition ref velocity = Some velocity"
    by (rule neighbor_step_zero_radius [OF assms])
  show "neighbor_loop U T selfPosition refs velocity = Some velocity"
    by (rule neighbor_loop_unchanged) (rule neighbor_step_zero_radius [OF assms])
  have "\<And>p refs v. neighbor_loop U T p refs v = Some v"
    by (rule neighbor_loop_unchanged) (rule neighbor_step_zero_radius [OF assms])
  then show "pre_clamp U T frag =
         do {
           vl \<leftarrow> predator_step U (PositionTexture T (fst frag) (snd frag))
                  (VelocityTexture T (fst frag) (snd frag), SPEED_LIMIT);
           velocity \<leftarrow> center_step U (PositionTexture T (fst frag) (snd frag)) (fst vl);
           Some (velocity, snd vl)
         }"
    by (simp add: pre_clamp_def Let_def)
qed

theorem zero_radius_no_neighbors_witness:
  "zoneRadius zero_uniforms = 0
   \<and> neighbor_loop zero_uniforms two_birds (Vec3 10 0 0) [(0, 0), (1, 0)] (Vec3 0 0 0)
       = Some (Vec3 0 0 0)
   \<and> pre_clamp zero_uniforms fast_bird (0, 0) = Some (Vec3 0 0 20, 10)"
proof -
  have z: "zoneRadius zero_uniforms = 0"
    by (simp add: zoneRadius_def zero_uniforms_def)
  have far: "\<not> vlength (predator_dir zero_uniforms (Vec3 0 0 5)) < 50"
    by (simp add: vlength_less_iff predator_dir_components zero_uniforms_def far_uniforms_def)
  have p: "predator_step zero_uniforms (Vec3 0 0 5) (Vec3 0 0 (2512 / 125), SPEED_LIMIT)
             = Some (Vec3 0 0 (2512 / 125), 10)"
    using far by (simp add: predator_step_cases SPEED_LIMIT_def)
  have c: "center_step zero_uniforms (Vec3 0 0 5) (Vec3 0 0 (2512 / 125)) = Some (Vec3 0 0 20)"
    by (simp add: center_step_normalize normalize_axis_z vscale_def vsub_def zero_uniforms_def
        far_uniforms_def)
  have t: "PositionTexture fast_bird (fst (0, 0)) (snd (0, 0)) = Vec3 0 0 5"
    "VelocityTexture fast_bird (fst (0, 0)) (snd (0, 0)) = Vec3 0 0 (2512 / 125)"
    by (simp_all add: fast_bird_def)
  have scan: "neighbor_loop zero_uniforms two_birds (Vec3 10 0 0) [(0, 0), (1, 0)] (Vec3 0 0 0)
       = Some (Vec3 0 0 0)"
    using zero_radius_no_neighbors [OF z, of two_birds "Vec3 10 0 0" "(0, 0)" "Vec3 0 0 0"
        "[(0, 0), (1, 0)]" "(0, 0)"]
    by (simp del: neighbor_loop.simps One_nat_def)
  have "pre_clamp zero_uniforms fast_bird (0, 0) = Some (Vec3 0 0 20, 10)"
    using zero_radius_no_neighbors [OF z, of fast_bird "Vec3 0 0 5" "(0, 0)" "Vec3 0 0 0"
        "[(0, 0)]" "(0, 0)"]
    unfolding t by (simp add: p c del: neighbor_loop.simps)
  then show ?thesis
    using z scan by simp
qed

section \<open>The zone rules\<close>

lemma thresholds_defined:
  assumes "zoneRadius U \<noteq> 0"
  shows "separationThresh U = Some (separation_distance U / zoneRadius U)"
    and "alignmentThresh U
           = Some ((separation_distance U + alignment_distance U) / zoneRadius U)"
  using assms by (simp_all add: separationThresh_def alignmentThresh_def fdiv_def)

lemma separation_f_defined:
  assumes "percent \<noteq> 0"
  shows "separation_f sepT percent dt = Some ((sepT / percent - 1) * dt)"
  using assms by (simp add: separation_f_def fdiv_def)

lemma alignment_f_defined:
  assumes "sepT \<noteq> alT"
  shows "alignment_f sepT alT percent dt
     = Some ((1 / 2 - cos ((percent - sepT) / (alT - sepT) * PI_2) * (1 / 2) + 1 / 2) * dt)"
  using assms by (simp add: alignment_f_def fdiv_def)

lemma cohesion_f_defined:
  assumes "alT \<noteq> 1"
  shows "cohesion_f alT percent dt
     = Some ((1 / 2 - (cos ((percent - alT) / (1 - alT) * PI_2) * (- (1 / 2)) + 1 / 2)) * dt)"
  using assms by (simp add: cohesion_f_def fdiv_def)


lemma vlength_axis_y: "vlength (Vec3 0 a 0) = \<bar>a\<bar>"
  by (simp add: vlength_def)

lemma normalize_axis_y: "a \<noteq> 0 \<Longrightarrow> normalize_vec (Vec3 0 a 0) = Some (Vec3 0 (sgn a) 0)"
  by (simp add: normalize_vec_def vlength_axis_y sgn_real_def)


section \<open>Where the written velocity is defined\<close>

lemma neighbor_step_defined:
  assumes vel: "VelocityTexture T (fst ref) (snd ref) \<noteq> Vec3 0 0 0"
    and coh: "cohesion_distance U \<noteq> 0"
  shows "\<exists>v. neighbor_step U T selfPosition ref velocity = Some v"
proof -
  let ?dir = "vsub (PositionTexture T (fst ref) (snd ref)) selfPosition"
  let ?d = "vlength ?dir"
  let ?Z = "zoneRadius U"
  show ?thesis
  proof (cases "?d < 1 / 10000 \<or> ?Z * ?Z < ?d * ?d")
    case True
    then show ?thesis
      by (simp add: neighbor_step_skip)
  next
    case False
    then have near: "\<not> ?d < 1 / 10000" and inside: "\<not> ?Z * ?Z < ?d * ?d"
      by simp_all
    have ddpos: "0 < ?d * ?d"
      by (rule square_pos_of_far [OF near])
    have Znz: "?Z \<noteq> 0"
      using inside ddpos by auto
    have dnz: "?d \<noteq> 0"
      using near by simp
    let ?percent = "?d * ?d / (?Z * ?Z)"
    let ?sepT = "separation_distance U / ?Z"
    let ?alT = "(separation_distance U + alignment_distance U) / ?Z"
    have pc: "fdiv (?d * ?d) (zoneRadiusSquared U) = Some ?percent"
      using Znz by (simp add: fdiv_def zoneRadiusSquared_def)
    have pnz: "?percent \<noteq> 0"
      using dnz Znz by simp
    have alT1: "?alT \<noteq> 1"
      using Znz coh by (simp add: zoneRadius_def)
    obtain n where n: "normalize_vec ?dir = Some n"
      using dnz by (auto simp: normalize_vec_def)
    obtain m where m: "normalize_vec (VelocityTexture T (fst ref) (snd ref)) = Some m"
      using vel by (auto simp: normalize_vec_def vlength_zero_iff)
    note step = neighbor_step_zones [OF near inside pc thresholds_defined [OF Znz], of velocity]
    show ?thesis
    proof (cases "?percent < ?sepT")
      case True
      then show ?thesis
        by (simp add: step separation_f_defined [OF pnz] n)
    next
      case False
      note nosep = this
      show ?thesis
      proof (cases "?percent < ?alT")
        case True
        then have "?sepT \<noteq> ?alT"
          using nosep by auto
        then show ?thesis
          using nosep True by (simp add: step alignment_f_defined m)
      next
        case False
        then show ?thesis
          using nosep by (simp add: step cohesion_f_defined [OF alT1] n)
      qed
    qed
  qed
qed

lemma neighbor_loop_defined:
  assumes "\<forall>x y. VelocityTexture T x y \<noteq> Vec3 0 0 0" and "cohesion_distance U \<noteq> 0"
  shows "\<exists>v. neighbor_loop U T selfPosition refs velocity = Some v"
proof (induction refs arbitrary: velocity)
  case Nil
  show ?case by simp
next
  case (Cons ref refs)
  obtain v where "neighbor_step U T selfPosition ref velocity = Some v"
    using neighbor_step_defined [of T ref U selfPosition velocity] assms by auto
  then show ?case
    using Cons.IH [of v] by simp
qed

lemma pre_clamp_defined:
  assumes "PositionTexture T (fst frag) (snd frag) \<noteq> Vec3 0 0 0"
    and "predator_dir U (PositionTexture T (fst frag) (snd frag)) \<noteq> Vec3 0 0 0"
    and "\<forall>x y. VelocityTexture T x y \<noteq> Vec3 0 0 0"
    and "cohesion_distance U \<noteq> 0"
  shows "\<exists>ul. pre_clamp U T frag = Some ul"
proof -
  let ?pos = "PositionTexture T (fst frag) (snd frag)"
  obtain n where "normalize_vec (predator_dir U ?pos) = Some n"
    using assms(2) by (auto simp: normalize_vec_def vlength_zero_iff)
  then have "\<exists>vl. predator_step U ?pos (VelocityTexture T (fst frag) (snd frag), SPEED_LIMIT)
      = Some vl"
    by (simp add: predator_step_cases)
  then obtain vl where p: "predator_step U ?pos (VelocityTexture T (fst frag) (snd frag), SPEED_LIMIT)
      = Some vl"
    by blast
  have "Vec3 (vx ?pos) (vy ?pos * (5 / 2)) (vz ?pos) \<noteq> Vec3 0 0 0"
    using assms(1) by (cases ?pos) simp
  then obtain c where c: "center_step U ?pos (fst vl) = Some c"
    by (auto simp: center_step_normalize normalize_vec_def vlength_zero_iff)
  obtain w where "neighbor_loop U T ?pos (scan_order T) c = Some w"
    using neighbor_loop_defined [OF assms(3, 4)] by blast
  then show ?thesis
    using p c by (simp add: pre_clamp_def Let_def)
qed

section \<open>The speed bound\<close>

text \<open>
  C1, as stated, fails: for a bird at the origin the shader writes an undefined velocity
  (the centre pull normalizes the zero vector), so no velocity of magnitude at most 10 is
  written.
\<close>

theorem speed_bound_counterexample:
  "PositionTexture origin_bird 0 0 = Vec3 0 0 0
   \<and> boidVelocity_main far_uniforms origin_bird (0, 0) = None"
  by (simp add: main_origin_bird) (simp add: origin_bird_def)

text \<open>
  C1, amended: for every bird whose written velocity \<open>v\<close> is defined, the velocity \<open>u\<close>
  before the clamp is defined too, the limit is 15 when the planar distance to the
  predator is less than 50 and 10 otherwise, the magnitude of \<open>v\<close> is at most the limit,
  it is exactly the limit when the magnitude of \<open>u\<close> exceeds the limit, and \<open>v\<close> is \<open>u\<close>
  otherwise. The written velocity is defined for every bird that is not at the origin and
  not at the predator's planar position, when no stored velocity is zero and the cohesion
  distance is not zero.
\<close>

theorem speed_bound:
  "(boidVelocity_main U T frag = Some v \<longrightarrow>
      (\<exists>u limit. pre_clamp U T frag = Some (u, limit)
         \<and> limit = (if vlength (predator_dir U (PositionTexture T (fst frag) (snd frag))) < 50
                    then 15 else 10)
         \<and> vlength v \<le> limit
         \<and> (limit < vlength u \<longrightarrow> vlength v = limit)
         \<and> (vlength u \<le> limit \<longrightarrow> v = u)))
   \<and> (PositionTexture T (fst frag) (snd frag) \<noteq> Vec3 0 0 0
        \<and> predator_dir U (PositionTexture T (fst frag) (snd frag)) \<noteq> Vec3 0 0 0
        \<and> (\<forall>x y. VelocityTexture T x y \<noteq> Vec3 0 0 0)
        \<and> cohesion_distance U \<noteq> 0 \<longrightarrow>
      (\<exists>w. boidVelocity_main U T frag = Some w))"
proof (intro conjI impI)
  assume m: "boidVelocity_main U T frag = Some v"
  then obtain u limit where p: "pre_clamp U T frag = Some (u, limit)"
    and c: "clamp_step u limit = Some v"
    by (auto simp: boidVelocity_main_def Option.bind_eq_Some_conv)
  have l: "limit = (if vlength (predator_dir U (PositionTexture T (fst frag) (snd frag))) < 50
                    then 15 else 10)"
    by (rule pre_clamp_limit [OF p])
  then have "0 < limit"
    by (simp split: if_splits)
  then have "vlength v \<le> limit \<and> (limit < vlength u \<longrightarrow> vlength v = limit)
      \<and> (vlength u \<le> limit \<longrightarrow> v = u)"
    using clamp_step_bound [of limit u] c by auto
  then show "\<exists>u limit. pre_clamp U T frag = Some (u, limit)
         \<and> limit = (if vlength (predator_dir U (PositionTexture T (fst frag) (snd frag))) < 50
                    then 15 else 10)
         \<and> vlength v \<le> limit
         \<and> (limit < vlength u \<longrightarrow> vlength v = limit)
         \<and> (vlength u \<le> limit \<longrightarrow> v = u)"
    using p l by blast
next
  assume a: "PositionTexture T (fst frag) (snd frag) \<noteq> Vec3 0 0 0
        \<and> predator_dir U (PositionTexture T (fst frag) (snd frag)) \<noteq> Vec3 0 0 0
        \<and> (\<forall>x y. VelocityTexture T x y \<noteq> Vec3 0 0 0)
        \<and> cohesion_distance U \<noteq> 0"
  then have "\<exists>ul. pre_clamp U T frag = Some ul"
    by (intro pre_clamp_defined) simp_all
  then show "\<exists>w. boidVelocity_main U T frag = Some w"
    by (simp add: main_defined_iff)
qed

theorem speed_bound_witness:
  "boidVelocity_main far_uniforms fast_bird (0, 0) = Some (Vec3 0 0 10)
   \<and> pre_clamp far_uniforms fast_bird (0, 0) = Some (Vec3 0 0 20, 10)
   \<and> 10 < vlength (Vec3 0 0 20) \<and> vlength (Vec3 0 0 10) = 10
   \<and> vlength (predator_dir near_uniforms (Vec3 10 0 0)) < 50
   \<and> boidVelocity_main near_uniforms two_birds (1, 0) = Some (Vec3 (6 / 625) 0 0)
   \<and> pre_clamp near_uniforms two_birds (1, 0) = Some (Vec3 (6 / 625) 0 0, 15)
   \<and> vlength (Vec3 (6 / 625) 0 0) \<le> 15
   \<and> PositionTexture fast_bird (fst (0, 0)) (snd (0, 0)) \<noteq> Vec3 0 0 0
   \<and> predator_dir far_uniforms (PositionTexture fast_bird (fst (0, 0)) (snd (0, 0))) \<noteq> Vec3 0 0 0
   \<and> (\<forall>x y. VelocityTexture fast_bird x y \<noteq> Vec3 0 0 0)
   \<and> cohesion_distance far_uniforms \<noteq> 0"
proof -
  have lens: "10 < vlength (Vec3 0 0 20)" "vlength (Vec3 0 0 10) = 10"
    "vlength (Vec3 (6 / 625) 0 0) \<le> 15"
    by (simp_all add: vlength_axis_z vlength_axis_x)
  have near: "vlength (predator_dir near_uniforms (Vec3 10 0 0)) < 50"
    by (simp add: predator_dir_near_B vlength_axis_x)
  have hyps: "PositionTexture fast_bird (fst (0, 0)) (snd (0, 0)) \<noteq> Vec3 0 0 0"
    "predator_dir far_uniforms (PositionTexture fast_bird (fst (0, 0)) (snd (0, 0))) \<noteq> Vec3 0 0 0"
    "\<forall>x y. VelocityTexture fast_bird x y \<noteq> Vec3 0 0 0"
    "cohesion_distance far_uniforms \<noteq> 0"
    by (simp_all add: fast_bird_def far_uniforms_def predator_dir_components)
  have defined: "\<exists>w. boidVelocity_main far_uniforms fast_bird (0, 0) = Some w"
    using speed_bound [of far_uniforms fast_bird "(0, 0)" "Vec3 0 0 10"] hyps by blast
  have bounded: "\<exists>u limit. pre_clamp near_uniforms two_birds (1, 0) = Some (u, limit)
      \<and> vlength (Vec3 (6 / 625) 0 0) \<le> limit"
    using speed_bound [of near_uniforms two_birds "(1, 0)" "Vec3 (6 / 625) 0 0"] main_near_B
    by blast
  show ?thesis
    using lens near hyps defined bounded main_fast_bird pre_clamp_fast_bird main_near_B
      pre_clamp_near_B
    by blast
qed

section \<open>The weights at the zone boundaries\<close>

lemma alignment_f_range:
  assumes "sepT \<noteq> alT" and "0 \<le> dt"
  shows "\<exists>f. alignment_f sepT alT percent dt = Some f \<and> dt / 2 \<le> f \<and> f \<le> 3 * dt / 2"
proof -
  let ?c = "cos ((percent - sepT) / (alT - sepT) * PI_2)"
  have c: "- 1 \<le> ?c" "?c \<le> 1"
    by simp_all
  have "1 / 2 \<le> 1 / 2 - ?c * (1 / 2) + 1 / 2" and "1 / 2 - ?c * (1 / 2) + 1 / 2 \<le> 3 / 2"
    using c by linarith+
  then have "1 / 2 * dt \<le> (1 / 2 - ?c * (1 / 2) + 1 / 2) * dt"
    and "(1 / 2 - ?c * (1 / 2) + 1 / 2) * dt \<le> 3 / 2 * dt"
    using assms(2) by (simp_all only: mult_right_mono)
  then show ?thesis
    using assms(1) by (simp add: alignment_f_defined)
qed

lemma neighbor_step_at_boundary:
  "neighbor_step wide_uniforms zone_birds (Vec3 5 0 0) (2, 0) (Vec3 0 0 0)
     = Some (Vec3 0 (1 / 125) 0)"
proof -
  have dir: "vsub (PositionTexture zone_birds (fst (2, 0)) (snd (2, 0))) (Vec3 5 0 0) = Vec3 40 0 0"
    by (simp add: zone_birds_def vsub_def)
  have len: "vlength (Vec3 40 0 0) = 40"
    by (simp add: vlength_axis_x)
  have Z: "zoneRadius wide_uniforms = 80"
    by (simp add: zoneRadius_def wide_uniforms_def far_uniforms_def)
  have sepT: "separationThresh wide_uniforms = Some (1 / 4)"
    and alT: "alignmentThresh wide_uniforms = Some (5 / 8)"
    by (simp_all add: separationThresh_def alignmentThresh_def fdiv_def Z)
      (simp_all add: wide_uniforms_def far_uniforms_def)
  have vel: "VelocityTexture zone_birds (fst (2, 0)) (snd (2, 0)) = Vec3 0 2 0"
    by (simp add: zone_birds_def)
  have dt: "del_change wide_uniforms = 2 / 125"
    by (simp add: wide_uniforms_def far_uniforms_def)
  show ?thesis
    unfolding neighbor_step_def Let_def dir len vel
    by (simp add: fdiv_def zoneRadiusSquared_def Z sepT alT alignment_f_def dt
        normalize_axis_y vadd_def vscale_def)
qed

lemma cos_half_PI_small: "\<bar>cos (PI / 2)\<bar> \<le> 1 / 10000"
proof -
  let ?y = "314159 / 200000 :: real"
  obtain t where t: "cos ?y = (\<Sum>m<12. cos_coeff m * ?y ^ m)
      + (cos (t + 1 / 2 * real (12 :: nat) * pi) / fact 12) * ?y ^ 12"
    using Maclaurin_cos_expansion [of ?y 12] by blast
  have set: "{..<12::nat} = {0, 1, 2, 3, 4, 5, 6, 7, 8, 9, 10, 11}"
    by (auto simp: less_Suc_eq numeral_eq_Suc)
  have poly: "(\<Sum>m<12. cos_coeff m * ?y ^ m)
      = 1 - ?y ^ 2 / 2 + ?y ^ 4 / 24 - ?y ^ 6 / 720 + ?y ^ 8 / 40320 - ?y ^ 10 / 3628800"
    unfolding set by (simp add: cos_coeff_def fact_numeral)
  have "\<bar>cos (t + 1 / 2 * real (12 :: nat) * pi)\<bar> \<le> 1"
    by (rule abs_cos_le_one)
  then have "\<bar>(cos (t + 1 / 2 * real (12 :: nat) * pi) / fact 12) * ?y ^ 12\<bar>
      \<le> 1 / fact 12 * ?y ^ 12"
    by (simp add: abs_mult divide_right_mono mult_right_mono)
  moreover have "1 / fact 12 * ?y ^ 12 \<le> (1 / 100000 :: real)"
    by (simp add: fact_numeral power_divide)
  moreover have "\<bar>1 - ?y ^ 2 / 2 + ?y ^ 4 / 24 - ?y ^ 6 / 720 + ?y ^ 8 / 40320 - ?y ^ 10 / 3628800\<bar>
      \<le> 1 / 100000"
    by (simp add: power_divide)
  ultimately have "\<bar>cos ?y\<bar> \<le> 1 / 10000"
    unfolding t poly by linarith
  then show ?thesis
    by (simp add: PI_def)
qed

lemma cos_PI_2_close: "1 - cos PI_2 \<le> 8 / 100000000"
proof -
  have "cos PI_2 = cos (2 * (2 * (PI / 2)))"
    by (simp add: PI_2_def mult.commute)
  also have "\<dots> = 1 - 2 * (sin (2 * (PI / 2)))\<^sup>2"
    by (rule cos_double_sin)
  also have "sin (2 * (PI / 2)) = 2 * sin (PI / 2) * cos (PI / 2)"
    by (rule sin_double)
  finally have eq: "1 - cos PI_2 = 8 * ((sin (PI / 2))\<^sup>2 * (cos (PI / 2))\<^sup>2)"
    by (simp add: power_mult_distrib)
  have s: "(sin (PI / 2))\<^sup>2 \<le> 1"
    using sin_cos_squared_add [of "PI / 2"] zero_le_power2 [of "cos (PI / 2)"] by linarith
  have "\<bar>cos (PI / 2)\<bar> \<le> \<bar>1 / 10000 :: real\<bar>"
    using cos_half_PI_small by simp
  then have c: "(cos (PI / 2))\<^sup>2 \<le> (1 / 10000)\<^sup>2"
    by (simp only: abs_le_square_iff)
  have "(sin (PI / 2))\<^sup>2 * (cos (PI / 2))\<^sup>2 \<le> 1 * (1 / 10000)\<^sup>2"
    using s c by (intro mult_mono) simp_all
  then show ?thesis
    unfolding eq by (simp add: power2_eq_square)
qed

lemma boundary_gap:
  "\<bar>(1 / 2 - cos PI_2 * (1 / 2) + 1 / 2) * dt - dt / 2\<bar> \<le> \<bar>dt\<bar> / 2 ^ 23"
proof -
  have c: "0 \<le> 1 - cos PI_2"
    by simp
  have eq: "(1 / 2 - cos PI_2 * (1 / 2) + 1 / 2) * dt - dt / 2 = (1 - cos PI_2) / 2 * dt"
    by (simp add: algebra_simps)
  have "\<bar>(1 - cos PI_2) / 2 * dt\<bar> = (1 - cos PI_2) / 2 * \<bar>dt\<bar>"
    using c by (simp add: abs_mult)
  then have "\<bar>(1 / 2 - cos PI_2 * (1 / 2) + 1 / 2) * dt - dt / 2\<bar> = (1 - cos PI_2) / 2 * \<bar>dt\<bar>"
    by (simp only: eq)
  also have "\<dots> \<le> 1 / 2 ^ 23 * \<bar>dt\<bar>"
    using cos_PI_2_close by (intro mult_right_mono) simp_all
  finally show ?thesis
    by simp
qed

text \<open>
  C3, as stated, fails: at \<open>percent = sepThresh\<close> the separation formula gives the weight 0,
  and the alignment formula, at its inner edge, gives half the elapsed time, not 0. With
  the thresholds 2/7 and 5/7 and the elapsed time 0.016 the two differ by 0.008, more than
  the float epsilon \<open>2\<^sup>-\<^sup>2\<^sup>3\<close>. A neighbor exactly on the boundary (zone radius 80,
  distance 40, \<open>percent = sepThresh = 1/4\<close>) adds a velocity of length 0.008.
\<close>

theorem zone_boundary_counterexample:
  "separation_f (2 / 7) (2 / 7) (2 / 125) = Some 0
   \<and> alignment_f (2 / 7) (5 / 7) (2 / 7) (2 / 125) = Some (1 / 125)
   \<and> 1 / 2 ^ 23 < \<bar>1 / 125 - 0 :: real\<bar>
   \<and> separationThresh wide_uniforms = Some (1 / 4)
   \<and> fdiv (40 * 40) (zoneRadiusSquared wide_uniforms) = Some (1 / 4)
   \<and> neighbor_step wide_uniforms zone_birds (Vec3 5 0 0) (2, 0) (Vec3 0 0 0)
       = Some (Vec3 0 (1 / 125) 0)"
proof (intro conjI)
  have Z: "zoneRadius wide_uniforms = 80"
    by (simp add: zoneRadius_def wide_uniforms_def far_uniforms_def)
  show "separation_f (2 / 7) (2 / 7) (2 / 125) = Some 0"
    by (simp add: separation_f_def fdiv_def)
  show "alignment_f (2 / 7) (5 / 7) (2 / 7) (2 / 125) = Some (1 / 125)"
    by (simp add: alignment_f_def fdiv_def)
  show "1 / 2 ^ 23 < \<bar>1 / 125 - 0 :: real\<bar>"
    by simp
  show "separationThresh wide_uniforms = Some (1 / 4)"
    by (simp add: separationThresh_def fdiv_def Z) (simp add: wide_uniforms_def far_uniforms_def)
  show "fdiv (40 * 40) (zoneRadiusSquared wide_uniforms) = Some (1 / 4)"
    by (simp add: fdiv_def zoneRadiusSquared_def Z)
  show "neighbor_step wide_uniforms zone_birds (Vec3 5 0 0) (2, 0) (Vec3 0 0 0)
       = Some (Vec3 0 (1 / 125) 0)"
    by (rule neighbor_step_at_boundary)
qed

text \<open>
  C3, amended: at \<open>percent = sepThresh\<close> the separation weight is 0 and the alignment
  weight (its inner edge, \<open>t = 0\<close>) is half the elapsed time: the weight jumps by half the
  elapsed time there. Over the whole alignment zone, for a nonnegative elapsed time, the
  weight lies between 0.5 and 1.5 times the elapsed time; at its outer edge (\<open>t = 1\<close>) it
  is \<open>(1 - cos (2 * 3.14159) / 2)\<close> times the elapsed time. At \<open>percent = alignThresh\<close> the
  cohesion weight (its inner edge) is half the elapsed time, and the two weights there
  differ by at most \<open>2\<^sup>-\<^sup>2\<^sup>3\<close> times the elapsed time, in exact arithmetic.
\<close>

theorem zone_boundary_weights:
  "(sepT \<noteq> 0 \<longrightarrow> separation_f sepT sepT dt = Some 0)
   \<and> (sepT \<noteq> alT \<longrightarrow> alignment_f sepT alT sepT dt = Some (dt / 2))
   \<and> (sepT \<noteq> alT \<longrightarrow> alignment_f sepT alT alT dt = Some ((1 - cos (2 * (314159 / 100000)) / 2) * dt))
   \<and> (sepT \<noteq> alT \<and> 0 \<le> dt \<longrightarrow>
        (\<exists>f. alignment_f sepT alT percent dt = Some f \<and> dt / 2 \<le> f \<and> f \<le> 3 * dt / 2))
   \<and> (alT \<noteq> 1 \<longrightarrow> cohesion_f alT alT dt = Some (dt / 2))
   \<and> (sepT \<noteq> alT \<and> alT \<noteq> 1 \<longrightarrow>
        (\<exists>fa fc. alignment_f sepT alT alT dt = Some fa \<and> cohesion_f alT alT dt = Some fc
           \<and> \<bar>fa - fc\<bar> \<le> \<bar>dt\<bar> / 2 ^ 23))"
proof (intro conjI impI)
  assume "sepT \<noteq> 0"
  then show "separation_f sepT sepT dt = Some 0"
    by (simp add: separation_f_defined)
next
  assume "sepT \<noteq> alT"
  then show "alignment_f sepT alT sepT dt = Some (dt / 2)"
    by (simp add: alignment_f_defined)
next
  assume "sepT \<noteq> alT"
  then show "alignment_f sepT alT alT dt = Some ((1 - cos (2 * (314159 / 100000)) / 2) * dt)"
    by (simp add: alignment_f_defined PI_2_def PI_def mult.commute)
next
  assume "sepT \<noteq> alT \<and> 0 \<le> dt"
  then show "\<exists>f. alignment_f sepT alT percent dt = Some f \<and> dt / 2 \<le> f \<and> f \<le> 3 * dt / 2"
    using alignment_f_range [of sepT alT dt percent] by simp
next
  assume "alT \<noteq> 1"
  then show "cohesion_f alT alT dt = Some (dt / 2)"
    by (simp add: cohesion_f_defined)
next
  assume a: "sepT \<noteq> alT \<and> alT \<noteq> 1"
  have "alignment_f sepT alT alT dt = Some ((1 / 2 - cos PI_2 * (1 / 2) + 1 / 2) * dt)"
    using a by (simp add: alignment_f_defined)
  moreover have "cohesion_f alT alT dt = Some (dt / 2)"
    using a by (simp add: cohesion_f_defined)
  ultimately show "\<exists>fa fc. alignment_f sepT alT alT dt = Some fa \<and> cohesion_f alT alT dt = Some fc
           \<and> \<bar>fa - fc\<bar> \<le> \<bar>dt\<bar> / 2 ^ 23"
    using boundary_gap [of dt] by blast
qed

theorem zone_boundary_weights_witness:
  "((2 / 7 :: real) \<noteq> 0 \<and> (2 / 7 :: real) \<noteq> 5 / 7 \<and> (0 :: real) \<le> 2 / 125 \<and> (5 / 7 :: real) \<noteq> 1
    \<and> separation_f (2 / 7) (2 / 7) (2 / 125) = Some 0
    \<and> alignment_f (2 / 7) (5 / 7) (2 / 7) (2 / 125) = Some (1 / 125)
    \<and> alignment_f (2 / 7) (5 / 7) (5 / 7) (2 / 125) = Some ((1 - cos (2 * (314159 / 100000)) / 2) * (2 / 125))
    \<and> (\<exists>f. alignment_f (2 / 7) (5 / 7) (16 / 49) (2 / 125) = Some f \<and> 1 / 125 \<le> f \<and> f \<le> 3 / 125)
    \<and> cohesion_f (5 / 7) (5 / 7) (2 / 125) = Some (1 / 125))
   \<and> (\<exists>fa fc. alignment_f (2 / 7) (5 / 7) (5 / 7) (2 / 125) = Some fa
         \<and> cohesion_f (5 / 7) (5 / 7) (2 / 125) = Some fc
         \<and> \<bar>fa - fc\<bar> \<le> \<bar>2 / 125\<bar> / 2 ^ 23)"
proof
  have h: "(2 / 7 :: real) \<noteq> 5 / 7 \<and> (5 / 7 :: real) \<noteq> 1"
    by simp
  note w = zone_boundary_weights [of "2 / 7" "2 / 125" "5 / 7" "16 / 49"]
  show "(2 / 7 :: real) \<noteq> 0 \<and> (2 / 7 :: real) \<noteq> 5 / 7 \<and> (0 :: real) \<le> 2 / 125 \<and> (5 / 7 :: real) \<noteq> 1
    \<and> separation_f (2 / 7) (2 / 7) (2 / 125) = Some 0
    \<and> alignment_f (2 / 7) (5 / 7) (2 / 7) (2 / 125) = Some (1 / 125)
    \<and> alignment_f (2 / 7) (5 / 7) (5 / 7) (2 / 125) = Some ((1 - cos (2 * (314159 / 100000)) / 2) * (2 / 125))
    \<and> (\<exists>f. alignment_f (2 / 7) (5 / 7) (16 / 49) (2 / 125) = Some f \<and> 1 / 125 \<le> f \<and> f \<le> 3 / 125)
    \<and> cohesion_f (5 / 7) (5 / 7) (2 / 125) = Some (1 / 125)"
    using w [THEN conjunct1] w [THEN conjunct2, THEN conjunct1]
      w [THEN conjunct2, THEN conjunct2, THEN conjunct1]
      w [THEN conjunct2, THEN conjunct2, THEN conjunct2, THEN conjunct1]
      w [THEN conjunct2, THEN conjunct2, THEN conjunct2, THEN conjunct2, THEN conjunct1]
    by simp
  show "\<exists>fa fc. alignment_f (2 / 7) (5 / 7) (5 / 7) (2 / 125) = Some fa
         \<and> cohesion_f (5 / 7) (5 / 7) (2 / 125) = Some fc
         \<and> \<bar>fa - fc\<bar> \<le> \<bar>2 / 125\<bar> / 2 ^ 23"
    using w h by blast
qed

section \<open>The count of birds\<close>

lemma sqrt_ceiling_bounds:
  assumes "0 < b"
  shows "b \<le> of_int \<lceil>sqrt b\<rceil> * of_int \<lceil>sqrt b\<rceil>"
proof -
  have s: "0 \<le> sqrt b"
    using assms by simp
  have le: "sqrt b \<le> of_int \<lceil>sqrt b\<rceil>"
    by (rule le_of_int_ceiling)
  have nn: "(0::real) \<le> of_int \<lceil>sqrt b\<rceil>"
    using s le by (rule order_trans)
  have "sqrt b * sqrt b \<le> of_int \<lceil>sqrt b\<rceil> * of_int \<lceil>sqrt b\<rceil>"
    using le le nn s by (rule mult_mono)
  then show "b \<le> of_int \<lceil>sqrt b\<rceil> * of_int \<lceil>sqrt b\<rceil>"
    using assms by simp
qed

lemma ceiling_sqrt_10: "\<lceil>sqrt 10\<rceil> = 4"
proof (rule ceiling_unique)
  have "3 < sqrt 10"
    by (rule real_less_rsqrt) simp
  then show "of_int 4 - 1 < sqrt 10"
    by simp
  have "sqrt 10 \<le> 4"
    by (rule real_le_lsqrt) simp_all
  then show "sqrt 10 \<le> of_int 4"
    by simp
qed

text \<open>
  C9: when the \<open>birds\<close> option is a number that is an integer and positive, the count of
  birds is that number and the stored resolution is the ceiling of its square root,
  whose square is at least the count; otherwise the count is the square of the resolution
  and the options are unchanged. The resolution is the caller's, or 32 when the caller
  gives none, and then, with no \<open>birds\<close> option, the count is 1024.
\<close>

theorem birds_count:
  "(birds opts = JSNumber b \<and> of_int \<lfloor>b\<rfloor> = b \<and> 0 < b \<longrightarrow>
      fst (runSimulation opts) = b
      \<and> snd (runSimulation opts) = opts\<lparr>resolution := of_int \<lceil>sqrt b\<rceil>\<rparr>
      \<and> b \<le> resolution (snd (runSimulation opts)) * resolution (snd (runSimulation opts)))
   \<and> (\<not> (Number_isInteger (birds opts) \<and> js_positive (birds opts)) \<longrightarrow>
      fst (runSimulation opts) = resolution opts * resolution opts
      \<and> snd (runSimulation opts) = opts)
   \<and> (Number_isInteger (birds opts) \<and> js_positive (birds opts)
        \<longleftrightarrow> (\<exists>r. birds opts = JSNumber r \<and> of_int \<lfloor>r\<rfloor> = r \<and> 0 < r))
   \<and> resolution (constructor_options u) = (case user_resolution u of None \<Rightarrow> 32 | Some r \<Rightarrow> r)
   \<and> birds (constructor_options u) = (case user_birds u of None \<Rightarrow> JSNull | Some v \<Rightarrow> v)
   \<and> (user_resolution u = None \<and> user_birds u = None \<longrightarrow>
        fst (runSimulation (constructor_options u)) = 1024)"
proof (intro conjI impI)
  assume a: "birds opts = JSNumber b \<and> of_int \<lfloor>b\<rfloor> = b \<and> 0 < b"
  then show "fst (runSimulation opts) = b"
    and r: "snd (runSimulation opts) = opts\<lparr>resolution := of_int \<lceil>sqrt b\<rceil>\<rparr>"
    by (simp_all add: runSimulation_def Number_isInteger_def js_positive_def)
  show "b \<le> resolution (snd (runSimulation opts)) * resolution (snd (runSimulation opts))"
    using a sqrt_ceiling_bounds [of b] by (simp add: r)
next
  assume "\<not> (Number_isInteger (birds opts) \<and> js_positive (birds opts))"
  then show "fst (runSimulation opts) = resolution opts * resolution opts"
    and "snd (runSimulation opts) = opts"
    by (auto simp: runSimulation_def split: js_value.splits)
next
  show "Number_isInteger (birds opts) \<and> js_positive (birds opts)
        \<longleftrightarrow> (\<exists>r. birds opts = JSNumber r \<and> of_int \<lfloor>r\<rfloor> = r \<and> 0 < r)"
    by (cases "birds opts") (simp_all add: Number_isInteger_def js_positive_def)
next
  show "resolution (constructor_options u) = (case user_resolution u of None \<Rightarrow> 32 | Some r \<Rightarrow> r)"
    by (simp add: constructor_options_def default_value_def)
next
  show "birds (constructor_options u) = (case user_birds u of None \<Rightarrow> JSNull | Some v \<Rightarrow> v)"
    by (simp add: constructor_options_def default_value_def)
next
  assume "user_resolution u = None \<and> user_birds u = None"
  then show "fst (runSimulation (constructor_options u)) = 1024"
    by (simp add: runSimulation_def constructor_options_def default_value_def)
qed

theorem birds_count_witness:
  "birds (constructor_options (no_options\<lparr>user_birds := Some (JSNumber 10)\<rparr>)) = JSNumber 10
   \<and> of_int \<lfloor>10 :: real\<rfloor> = (10 :: real) \<and> (0 :: real) < 10
   \<and> fst (runSimulation (constructor_options (no_options\<lparr>user_birds := Some (JSNumber 10)\<rparr>))) = 10
   \<and> resolution (snd (runSimulation (constructor_options (no_options\<lparr>user_birds := Some (JSNumber 10)\<rparr>)))) = 4
   \<and> \<not> (Number_isInteger (birds (constructor_options (no_options\<lparr>user_birds := Some (JSNumber (5 / 2))\<rparr>)))
         \<and> js_positive (birds (constructor_options (no_options\<lparr>user_birds := Some (JSNumber (5 / 2))\<rparr>))))
   \<and> fst (runSimulation (constructor_options (no_options\<lparr>user_birds := Some (JSNumber (5 / 2))\<rparr>))) = 1024
   \<and> user_resolution no_options = None \<and> user_birds no_options = None
   \<and> fst (runSimulation (constructor_options no_options)) = 1024"
proof -
  let ?ten = "constructor_options (no_options\<lparr>user_birds := Some (JSNumber 10)\<rparr>)"
  let ?frac = "constructor_options (no_options\<lparr>user_birds := Some (JSNumber (5 / 2))\<rparr>)"
  have b: "birds ?ten = JSNumber 10" "birds ?frac = JSNumber (5 / 2)"
    by (simp_all add: constructor_options_def default_value_def no_options_def)
  have res: "resolution ?frac = 32"
    by (simp add: constructor_options_def default_value_def no_options_def)
  have n: "user_resolution no_options = None" "user_birds no_options = None"
    by (simp_all add: no_options_def)
  have fl: "\<lfloor>5 / 2 :: real\<rfloor> = 2"
    by simp
  have nofrac: "\<not> (Number_isInteger (birds ?frac) \<and> js_positive (birds ?frac))"
    by (simp add: b Number_isInteger_def fl)
  have ten: "fst (runSimulation ?ten) = 10 \<and> resolution (snd (runSimulation ?ten)) = 4"
    using birds_count [of ?ten 10 no_options] by (simp add: b ceiling_sqrt_10)
  have frac: "fst (runSimulation ?frac) = resolution ?frac * resolution ?frac"
    using birds_count [of ?frac 10 no_options] nofrac by blast
  have none: "fst (runSimulation (constructor_options no_options)) = 1024"
    using birds_count [of ?ten 10 no_options] n by blast
  show ?thesis
    using b(1) ten frac none nofrac n by (simp add: res)
qed

section \<open>The predator uniform across frames\<close>

lemma render_keeps_predator:
  assumes "\<not> (\<bar>mouseX s\<bar> < halfX s * 10 \<and> \<bar>mouseY s\<bar> < halfY s * 10)"
  shows "predator (uniformVelocity (render now s)) = predator (uniformVelocity s)"
    and "mouseX (render now s) = mouseX s" and "mouseY (render now s) = mouseY s"
  using assms by (auto simp: render_def Let_def)

lemma frame_one_state:
  "predator (uniformVelocity frame_one) = Vec3 (1 / 10) 0 0"
  "mouseX frame_one = 10000" "mouseY frame_one = 10000"
  "halfX frame_one = 400" "halfY frame_one = 300" "lastTime frame_one = 16"
  "bounds (uniformVelocity frame_one) = 500"
  by (simp_all add: frame_one_def render_def onDocumentMouseMove_def start_state_def Let_def
      near_uniforms_def far_uniforms_def)

text \<open>
  C2 on the code: after a pointer event, the first frame writes the predator uniform
  \<open>(0.1, 0, 0)\<close> and resets the pointer to \<open>(10000, 10000)\<close>. The second frame, with no
  pointer event, leaves the uniform as it is, and the predator step of the shader runs
  on it: a bird at rest at \<open>(40, 0, 0)\<close>, 10 from the predator at \<open>(50, 0, 0)\<close>, gets the
  velocity \<open>(0.1024, 0, 0)\<close> and the limit 15.
\<close>

theorem predator_persists:
  "predator (uniformVelocity frame_one) = Vec3 (1 / 10) 0 0
   \<and> mouseX frame_one = 10000 \<and> mouseY frame_one = 10000
   \<and> predator (uniformVelocity frame_two) = Vec3 (1 / 10) 0 0
   \<and> del_change (uniformVelocity frame_two) = 2 / 125
   \<and> predator_dir (uniformVelocity frame_two) (Vec3 40 0 0) = Vec3 10 0 0
   \<and> predator_step (uniformVelocity frame_two) (Vec3 40 0 0) (Vec3 0 0 0, 10)
       = Some (Vec3 (64 / 625) 0 0, 15)"
proof -
  have idle: "\<not> (\<bar>mouseX frame_one\<bar> < halfX frame_one * 10
      \<and> \<bar>mouseY frame_one\<bar> < halfY frame_one * 10)"
    by (simp add: frame_one_state)
  have p: "predator (uniformVelocity frame_two) = Vec3 (1 / 10) 0 0"
    unfolding frame_two_def by (simp add: render_keeps_predator [OF idle] frame_one_state)
  have dt: "del_change (uniformVelocity frame_two) = 2 / 125"
    using idle by (simp add: frame_two_def render_def Let_def frame_one_state)
  have b: "bounds (uniformVelocity frame_two) = 500"
    using idle by (simp add: frame_two_def render_def Let_def frame_one_state)
  have dir: "predator_dir (uniformVelocity frame_two) (Vec3 40 0 0) = Vec3 10 0 0"
    by (simp add: predator_dir_components p b)
  have "predator_step (uniformVelocity frame_two) (Vec3 40 0 0) (Vec3 0 0 0, 10)
       = Some (Vec3 (64 / 625) 0 0, 15)"
    by (simp add: predator_step_cases dir vlength_axis_x normalize_axis_x dt vadd_def vscale_def)
  then show ?thesis
    using p dt dir by (simp add: frame_one_state)
qed

section \<open>The initial textures\<close>












end
